theory Spec2Isabelle
  imports Main
begin

section \<open>Data model\<close>

text \<open>
  An object with the two fields \<open>from\<close> and \<open>to\<close>, as the visibility query reads
  and returns it. Offsets are JavaScript numbers that hold whole document offsets; they
  are unbounded integers here. A hidden segment covers the half-open interval from
  \<open>rfrom\<close> up to \<open>rto\<close>.
\<close>

record offset_range =
  rfrom :: int
  rto :: int

text \<open>
  The value of the state field is the host's decoration set. Every decoration in it is
  the one constant \<open>zoomMarkHidden\<close>, so a set is determined by its ranges. It is
  represented by the list of ranges in the order in which the host's iterator yields
  them.
\<close>

type_synonym decoration_set = "offset_range list"

text \<open>
  Modelled from the spec: the effect types of \<open>logic/utils/effects\<close>, which is not among
  the source files. The spec names two signals, "zoom in to [from,to)" and "zoom out";
  the first carries the two offsets, the second carries nothing. \<open>OtherEffect\<close> is an
  effect of any other type (the host's scroll request, for instance), for which both
  \<open>e.is\<close> tests of the reducer are false.
\<close>

datatype state_effect = ZoomIn (zfrom: int) (zto: int) | ZoomOut | OtherEffect

text \<open>
  A transaction as the reducer reads it: \<open>tr.changes\<close>, \<open>tr.effects\<close> and
  \<open>tr.newDoc.length\<close>. The type of the change batch belongs to the host and is a
  parameter.
\<close>

record 'c transaction =
  changes :: 'c
  effects :: "state_effect list"
  newDoc_length :: nat

text \<open>
  The part of an editor state that the visibility query reads: \<open>state.doc.length\<close> and
  \<open>state.field(zoomStateField)\<close>.
\<close>

record editor_state =
  doc_length :: nat
  zoom_field :: decoration_set

section \<open>Host operations on decoration sets\<close>

text \<open>
  \<open>zoomMarkHidden.range(from, to)\<close>: the constant decoration placed on a range. The
  host refuses a range that ends before it starts; the reducer never asks for one
  (lemma \<open>zoom_in_segments_ordered\<close> below), so the refusal has no branch here.
\<close>

definition zoomMarkHidden_range :: "int \<Rightarrow> int \<Rightarrow> offset_range" where
  "zoomMarkHidden_range a b = \<lparr>rfrom = a, rto = b\<rparr>"

text \<open>
  Modelled from the spec: the host's \<open>update\<close> on a decoration set with a \<open>filter\<close>,
  which is not among the source files. The reducer only calls it with the constant
  filter \<open>() => false\<close>, which the spec describes as "clear all segments (regardless of
  prior count)". A range is kept exactly when the filter accepts it.
\<close>

definition rs_update_filter :: "(offset_range \<Rightarrow> bool) \<Rightarrow> decoration_set \<Rightarrow> decoration_set" where
  "rs_update_filter keep value = filter keep value"

text \<open>
  Modelled from the spec: the host's \<open>update\<close> on a decoration set with one range to
  \<open>add\<close>, which is not among the source files. The spec asks of the store that its
  ordered list is "ascending by \<open>from\<close>"; the new range is therefore placed in front of
  the first range that does not start before it.
\<close>

fun rs_update_add :: "offset_range \<Rightarrow> decoration_set \<Rightarrow> decoration_set" where
  "rs_update_add r [] = [r]"
| "rs_update_add r (c # cs) =
     (if rfrom r \<le> rfrom c then r # c # cs else c # rs_update_add r cs)"

text \<open>
  Modelled from the spec: \<open>rangeSetToArray\<close> of \<open>logic/utils/rangeSetToArray\<close>, which
  is not among the source files. The spec: "hiddenRanges(set) -> ordered sequence of
  (from, to) = direct passthrough of toOrderedList".
\<close>

definition rangeSetToArray :: "decoration_set \<Rightarrow> offset_range list" where
  "rangeSetToArray rs = map (\<lambda>r. \<lparr>rfrom = rfrom r, rto = rto r\<rparr>) rs"

section \<open>The state field\<close>

text \<open>\<open>create\<close>: the field starts as \<open>Decoration.none\<close>.\<close>

definition zoomStateField_create :: decoration_set where
  "zoomStateField_create = []"

text \<open>
  The body of the loop over \<open>tr.effects\<close>, with \<open>L\<close> for \<open>tr.newDoc.length\<close>. An
  effect has one type, so at most one of the two \<open>if (e.is(...))\<close> blocks runs.
\<close>

fun effect_step :: "int \<Rightarrow> decoration_set \<Rightarrow> state_effect \<Rightarrow> decoration_set" where
  "effect_step L value (ZoomIn f t) =
     (let value = rs_update_filter (\<lambda>_. False) value;
          value = (if f > 0
                   then rs_update_add (zoomMarkHidden_range 0 (f - 1)) value
                   else value);
          value = (if t < L
                   then rs_update_add (zoomMarkHidden_range (t + 1) L) value
                   else value)
      in value)"
| "effect_step L value ZoomOut = rs_update_filter (\<lambda>_. False) value"
| "effect_step L value OtherEffect = value"

text \<open>The loop \<open>for (const e of tr.effects)\<close>, carrying the mutable \<open>value\<close>.\<close>

fun effects_loop :: "int \<Rightarrow> decoration_set \<Rightarrow> state_effect list \<Rightarrow> decoration_set" where
  "effects_loop L value [] = value"
| "effects_loop L value (e # es) = effects_loop L (effect_step L value e) es"

text \<open>
  \<open>update\<close>: the reducer of the state field. \<open>host_map\<close> is the host's
  \<open>value.map(changes)\<close>, taken as a parameter.
\<close>

definition zoomStateField_update ::
  "('c \<Rightarrow> decoration_set \<Rightarrow> decoration_set) \<Rightarrow> decoration_set \<Rightarrow> 'c transaction \<Rightarrow> decoration_set" where
  "zoomStateField_update host_map value tr =
     (let value = host_map (changes tr) value
      in effects_loop (int (newDoc_length tr)) value (effects tr))"

text \<open>
  Modelled from the spec: how the host applies a transaction to a state, which is not
  among the source files. The new document is the transaction's, and the reducer's
  "output is fed back as the new owned value".
\<close>

definition applyTransaction ::
  "('c \<Rightarrow> decoration_set \<Rightarrow> decoration_set) \<Rightarrow> editor_state \<Rightarrow> 'c transaction \<Rightarrow> editor_state" where
  "applyTransaction host_map st tr =
     \<lparr>doc_length = newDoc_length tr,
      zoom_field = zoomStateField_update host_map (zoom_field st) tr\<rparr>"

section \<open>The visibility query\<close>

definition calculateHiddenContentRanges :: "editor_state \<Rightarrow> offset_range list" where
  "calculateHiddenContentRanges state = rangeSetToArray (zoom_field state)"

text \<open>The result \<open>null\<close> is \<open>None\<close>.\<close>

definition calculateVisibleContentRange :: "editor_state \<Rightarrow> offset_range option" where
  "calculateVisibleContentRange state =
     (let hidden = calculateHiddenContentRanges state
      in case hidden of
           [a] \<Rightarrow>
             (if rfrom a = 0
              then Some \<lparr>rfrom = rto a + 1, rto = int (doc_length state)\<rparr>
              else Some \<lparr>rfrom = 0, rto = rfrom a - 1\<rparr>)
         | [a, b] \<Rightarrow> Some \<lparr>rfrom = rto a + 1, rto = rfrom b - 1\<rparr>
         | _ \<Rightarrow> None)"

section \<open>Mapping hidden ranges through document changes\<close>

text \<open>
  Modelled from the spec: the change batch of the host, which is not among the source
  files. The spec: "Mutations are expressed as ordered sets of (deleteFrom, deleteTo,
  insertText) operations, applied atomically as a change batch." The batch is written
  as the run of its sections from the start of the old document: \<open>Keep n\<close> leaves the
  next \<open>n\<close> characters as they are, \<open>Replace n m\<close> deletes the next \<open>n\<close> characters
  and inserts \<open>m\<close> characters in their place.
\<close>

datatype change_section = Keep nat | Replace nat nat

text \<open>
  Modelled from the spec: the host's translation of one offset through a change batch,
  which is not among the source files. The spec: "a small position-mapping utility
  that, given an ordered list of (deleteFrom, deleteTo, insertLen) operations,
  translates a single offset forward", with "insertions/deletions before a boundary
  shift it; a deletion that fully covers a boundary collapses it per-host mapping
  rules". \<open>posA\<close> is the offset reached in the old document and \<open>posB\<close> the one reached
  in the new document. \<open>after\<close> tells on which side of text inserted exactly at the
  offset the result lies. An offset behind the last section, which the host refuses,
  moves with the end of the document.
\<close>

fun mapPos_at :: "change_section list \<Rightarrow> int \<Rightarrow> int \<Rightarrow> bool \<Rightarrow> int \<Rightarrow> int" where
  "mapPos_at [] posA posB after pos = posB + (pos - posA)"
| "mapPos_at (Keep len # ss) posA posB after pos =
     (if pos < posA + int len
      then posB + (pos - posA)
      else mapPos_at ss (posA + int len) (posB + int len) after pos)"
| "mapPos_at (Replace len ins # ss) posA posB after pos =
     (if pos < posA + int len \<or> (pos = posA + int len \<and> \<not> after \<and> len = 0)
      then (if pos = posA \<or> \<not> after then posB else posB + int ins)
      else mapPos_at ss (posA + int len) (posB + int ins) after pos)"

definition mapPos :: "change_section list \<Rightarrow> bool \<Rightarrow> int \<Rightarrow> int" where
  "mapPos cs after pos = mapPos_at cs 0 0 after pos"

text \<open>
  Modelled from the spec: the host's \<open>map\<close> on a decoration set, which is not among the
  source files. The spec: "every existing segment's boundaries are translated through
  the batch of document changes" and this is done "without altering segment count or
  tag"; "apply it per segment boundary". The hidden mark is a block-level replacing
  decoration, which the host treats as inclusive at both ends: text inserted exactly at
  the start or at the end of a segment becomes part of it, so the start stays before
  such text and the end moves behind it.
\<close>

definition rs_map :: "change_section list \<Rightarrow> decoration_set \<Rightarrow> decoration_set" where
  "rs_map cs value =
     map (\<lambda>r. \<lparr>rfrom = mapPos cs False (rfrom r), rto = mapPos cs True (rto r)\<rparr>) value"

text \<open>
  The batch that inserts \<open>n\<close> characters at offset \<open>p\<close> of a document of length \<open>L\<close>,
  and the transaction of such an edit: it carries no effect, and the new document is
  \<open>n\<close> characters longer.
\<close>

definition insertion :: "nat \<Rightarrow> nat \<Rightarrow> nat \<Rightarrow> change_section list" where
  "insertion L p n = [Keep p, Replace 0 n, Keep (L - p)]"

definition insert_transaction :: "nat \<Rightarrow> nat \<Rightarrow> nat \<Rightarrow> change_section list transaction" where
  "insert_transaction L p n =
     \<lparr>changes = insertion L p n, effects = [], newDoc_length = L + n\<rparr>"

section \<open>The command facade\<close>

text \<open>
  The element that \<open>view.dom.closest(".cm-editor")\<close> finds: it either carries the class
  \<open>zoom-plugin-remove-indent\<close> together with the property \<open>--zoom-indent-chars\<close>, or
  neither.
\<close>

datatype editor_el = NoIndentRemoval | IndentRemoval nat

text \<open>
  The parts of the view that the facade touches. \<open>line_text_at\<close> is the host's
  \<open>view.state.doc.lineAt(pos).text\<close>, with \<open>None\<close> where the host raises;
  \<open>closest_editor_el\<close> is \<open>None\<close> where no such element exists. \<open>dispatched\<close> keeps
  the calls of \<open>view.dispatch\<close> themselves: the list of effects of every call made so
  far, in the order of the calls. Calls of the logger change nothing and are left out.
\<close>

record editor_view =
  view_state :: editor_state
  line_text_at :: "int \<Rightarrow> string option"
  closest_editor_el :: "editor_el option"
  dispatched :: "state_effect list list"

text \<open>
  The class \<open>\s\<close> of the regular expression, on the code units below 256, which are
  the ones \<open>char\<close> has: tab, line feed, vertical tab, form feed, carriage return, space
  and the no-break space U+00A0. The other characters of the class lie above 255.
\<close>

definition js_whitespace :: "char \<Rightarrow> bool" where
  "js_whitespace c =
     (c \<in> {CHR 0x09, CHR 0x0A, CHR 0x0B, CHR 0x0C, CHR 0x0D, CHR 0x20, CHR 0xA0})"

text \<open>
  \<open>/^(\s*)/\<close> matches every string, so the final \<open>return 0\<close> is never reached. The
  result is \<open>None\<close> when \<open>lineAt\<close> raises.
\<close>

definition calculateIndentLevel :: "editor_view \<Rightarrow> int \<Rightarrow> nat option" where
  "calculateIndentLevel view pos =
     (case line_text_at view pos of
        None \<Rightarrow> None
      | Some text \<Rightarrow> Some (length (takeWhile js_whitespace text)))"

definition applyIndentRemoval :: "editor_view \<Rightarrow> nat \<Rightarrow> editor_view" where
  "applyIndentRemoval view indentChars =
     (if indentChars > 0
      then (case closest_editor_el view of
              None \<Rightarrow> view
            | Some editorEl \<Rightarrow> view\<lparr>closest_editor_el := Some (IndentRemoval indentChars)\<rparr>)
      else view)"

definition removeIndentRemoval :: "editor_view \<Rightarrow> editor_view" where
  "removeIndentRemoval view =
     (case closest_editor_el view of
        None \<Rightarrow> view
      | Some editorEl \<Rightarrow> view\<lparr>closest_editor_el := Some NoIndentRemoval\<rparr>)"

text \<open>
  Modelled from the spec: \<open>view.dispatch\<close> with effects only, which is not among the
  source files. The host builds a transaction whose change batch leaves the whole
  document as it is, and applies it to the state of the view. The call is added to
  \<open>dispatched\<close> with the effects as they were passed.
\<close>

definition view_dispatch :: "editor_view \<Rightarrow> state_effect list \<Rightarrow> editor_view" where
  "view_dispatch view effs =
     view\<lparr>view_state :=
            applyTransaction rs_map (view_state view)
              \<lparr>changes = [Keep (doc_length (view_state view))],
               effects = effs,
               newDoc_length = doc_length (view_state view)\<rparr>,
          dispatched := dispatched view @ [effs]\<rparr>"

text \<open>
  \<open>options\<close> is the optional \<open>scrollIntoView\<close>, which defaults to true when it is not
  given. The scroll request is an effect of another type. The result is \<open>None\<close> when
  \<open>lineAt\<close> raises, which happens before anything is dispatched.
\<close>

definition keepOnlyZoomedContentVisible ::
  "editor_view \<Rightarrow> int \<Rightarrow> int \<Rightarrow> bool option \<Rightarrow> editor_view option" where
  "keepOnlyZoomedContentVisible view from_pos to_pos options =
     (let scrollIntoView = (case options of None \<Rightarrow> True | Some b \<Rightarrow> b);
          effect = ZoomIn from_pos to_pos
      in case calculateIndentLevel view from_pos of
           None \<Rightarrow> None
         | Some indentChars \<Rightarrow>
             (let view = applyIndentRemoval view indentChars;
                  view = view_dispatch view [effect];
                  view = (if scrollIntoView then view_dispatch view [OtherEffect] else view)
              in Some view))"

definition showAllContent :: "editor_view \<Rightarrow> editor_view" where
  "showAllContent view =
     (let view = removeIndentRemoval view;
          view = view_dispatch view [ZoomOut];
          view = view_dispatch view [OtherEffect]
      in view)"

section \<open>Properties of segment lists\<close>

text \<open>The list is in ascending order of the \<open>from\<close> offsets.\<close>

definition ascending_from :: "offset_range list \<Rightarrow> bool" where
  "ascending_from rs = sorted (map rfrom rs)"

text \<open>Two half-open segments overlap when some offset lies in both.\<close>

definition overlap :: "offset_range \<Rightarrow> offset_range \<Rightarrow> bool" where
  "overlap a b = (max (rfrom a) (rfrom b) < min (rto a) (rto b))"

fun no_overlap :: "offset_range list \<Rightarrow> bool" where
  "no_overlap [] = True"
| "no_overlap (a # rs) = (list_all (\<lambda>b. \<not> overlap a b) rs \<and> no_overlap rs)"

section \<open>Basic facts\<close>

lemma rangeSetToArray_id: "rangeSetToArray rs = rs"
  by (induction rs) (simp_all add: rangeSetToArray_def)

lemma rs_clear_empty: "rs_update_filter (\<lambda>_. False) prior = []"
  by (simp add: rs_update_filter_def)

lemma effects_loop_append:
  "effects_loop L prior (es @ fs) = effects_loop L (effects_loop L prior es) fs"
  by (induction es arbitrary: prior) simp_all

lemma effects_loop_foldl: "effects_loop L prior es = foldl (effect_step L) prior es"
  by (induction es arbitrary: prior) simp_all

text \<open>
  What a zoom-in effect leaves behind, written out. The suffix comes first only when it
  starts at or before offset 0.
\<close>

lemma effect_step_ZoomIn:
  "effect_step L prior (ZoomIn f t) =
     (if 0 < f
      then (if t < L
            then (if t + 1 \<le> 0
                  then [\<lparr>rfrom = t + 1, rto = L\<rparr>, \<lparr>rfrom = 0, rto = f - 1\<rparr>]
                  else [\<lparr>rfrom = 0, rto = f - 1\<rparr>, \<lparr>rfrom = t + 1, rto = L\<rparr>])
            else [\<lparr>rfrom = 0, rto = f - 1\<rparr>])
      else (if t < L then [\<lparr>rfrom = t + 1, rto = L\<rparr>] else []))"
  by (simp add: rs_update_filter_def zoomMarkHidden_range_def)

lemma zoom_in_segments_ordered:
  "0 \<le> L \<Longrightarrow> r \<in> set (effect_step L prior (ZoomIn f t)) \<Longrightarrow> rfrom r \<le> rto r"
  unfolding effect_step_ZoomIn by (auto split: if_splits)

lemma update_last_effect:
  "zoomStateField_update host_map prior (tr\<lparr>effects := es @ [e]\<rparr>) =
     effect_step (int (newDoc_length tr))
       (effects_loop (int (newDoc_length tr)) (host_map (changes tr) prior) es) e"
  by (simp add: zoomStateField_update_def effects_loop_append)

lemma update_ZoomOut_last:
  "zoomStateField_update host_map prior (tr\<lparr>effects := es @ [ZoomOut]\<rparr>) = []"
  unfolding update_last_effect by (simp add: rs_clear_empty)

lemma update_ZoomOut_only:
  "zoomStateField_update host_map prior (tr\<lparr>effects := [ZoomOut]\<rparr>) = []"
  using update_ZoomOut_last[where es = "[]"] by simp

lemma update_ZoomIn_last:
  "newDoc_length tr = newDoc_length tr' \<Longrightarrow>
     zoomStateField_update host_map prior (tr\<lparr>effects := es @ [ZoomIn c d]\<rparr>) =
     zoomStateField_update host_map' prior' (tr'\<lparr>effects := es' @ [ZoomIn c d]\<rparr>)"
  unfolding update_last_effect effect_step_ZoomIn by simp

lemma update_ZoomIn_only:
  "newDoc_length tr = newDoc_length tr' \<Longrightarrow>
     zoomStateField_update host_map prior (tr\<lparr>effects := [ZoomIn c d]\<rparr>) =
     zoomStateField_update host_map' prior' (tr'\<lparr>effects := [ZoomIn c d]\<rparr>)"
  using update_ZoomIn_last[where es = "[]" and es' = "[]"] by simp

lemma visible_after_zoom_in:
  assumes "0 \<le> f" "f \<le> t" "t \<le> int (newDoc_length tr)"
    and "\<not> (f = 0 \<and> t = int (newDoc_length tr))"
  shows "calculateVisibleContentRange
           (applyTransaction host_map st (tr\<lparr>effects := es @ [ZoomIn f t]\<rparr>)) =
         Some \<lparr>rfrom = f, rto = t\<rparr>"
  using assms
  unfolding calculateVisibleContentRange_def calculateHiddenContentRanges_def
    rangeSetToArray_id applyTransaction_def update_last_effect effect_step_ZoomIn
  by auto

subsection \<open>Offsets through a change batch\<close>

lemma mapPos_Keep: "mapPos [Keep n] after pos = pos"
  by (simp add: mapPos_def)

lemma rs_map_Keep: "rs_map [Keep n] prior = prior"
  by (induction prior) (simp_all add: rs_map_def mapPos_Keep)

lemma mapPos_insertion:
  "p \<le> L \<Longrightarrow> mapPos (insertion L p n) after pos =
     (if pos < int p \<or> (pos = int p \<and> \<not> after) then pos else pos + int n)"
  by (auto simp add: mapPos_def insertion_def)

lemma mapPos_at_lower:
  "posA \<le> pos \<Longrightarrow> posB \<le> mapPos_at ss posA posB after pos"
  by (induction ss posA posB after pos rule: mapPos_at.induct) auto

text \<open>The start of a segment never overtakes the start of a later one.\<close>

lemma mapPos_at_mono:
  "p \<le> q \<Longrightarrow> mapPos_at ss posA posB False p \<le> mapPos_at ss posA posB False q"
proof (induction ss posA posB False p arbitrary: q rule: mapPos_at.induct)
  case (1 posA posB pos)
  then show ?case by simp
next
  case (2 len ss posA posB pos)
  then show ?case
    using mapPos_at_lower[of "posA + int len" q "posB + int len" ss False] by auto
next
  case (3 len ins ss posA posB pos)
  then show ?case
    using mapPos_at_lower[of "posA + int len" q "posB + int ins" ss False] by auto
qed

lemma mapPos_mono: "p \<le> q \<Longrightarrow> mapPos cs False p \<le> mapPos cs False q"
  by (simp add: mapPos_def mapPos_at_mono)

lemma rs_map_length: "length (rs_map cs prior) = length prior"
  by (simp add: rs_map_def)

lemma rs_map_ascending: "ascending_from prior \<Longrightarrow> ascending_from (rs_map cs prior)"
  by (induction prior) (auto simp add: rs_map_def ascending_from_def mapPos_mono)

subsection \<open>The invariant of the reducer\<close>

lemma effect_step_length: "length prior \<le> 2 \<Longrightarrow> length (effect_step L prior e) \<le> 2"
  by (cases e) (simp_all add: effect_step_ZoomIn rs_clear_empty del: effect_step.simps(1))

lemma effect_step_ascending:
  "ascending_from prior \<Longrightarrow> ascending_from (effect_step L prior e)"
  by (cases e)
    (simp_all add: effect_step_ZoomIn rs_clear_empty ascending_from_def
      del: effect_step.simps(1))

lemma effects_loop_invariant:
  "length prior \<le> 2 \<and> ascending_from prior \<Longrightarrow>
     length (effects_loop L prior es) \<le> 2 \<and> ascending_from (effects_loop L prior es)"
  by (induction es arbitrary: prior) (simp_all add: effect_step_length effect_step_ascending)

lemma update_invariant:
  "length prior \<le> 2 \<and> ascending_from prior \<Longrightarrow>
     length (zoomStateField_update rs_map prior tr) \<le> 2 \<and>
     ascending_from (zoomStateField_update rs_map prior tr)"
  unfolding zoomStateField_update_def Let_def
  by (rule effects_loop_invariant) (simp add: rs_map_length rs_map_ascending)

lemma foldl_update_invariant:
  "length prior \<le> 2 \<and> ascending_from prior \<Longrightarrow>
     length (foldl (zoomStateField_update rs_map) prior trs) \<le> 2 \<and>
     ascending_from (foldl (zoomStateField_update rs_map) prior trs)"
proof (induction trs arbitrary: prior)
  case Nil
  then show ?case by simp
next
  case (Cons tr trs)
  from Cons.prems
  have "length (zoomStateField_update rs_map prior tr) \<le> 2 \<and>
     ascending_from (zoomStateField_update rs_map prior tr)"
    by (rule update_invariant)
  then show ?case using Cons.IH by simp
qed

lemma zoom_in_no_overlap:
  "f \<le> t \<Longrightarrow> no_overlap (effect_step L prior (ZoomIn f t))"
  unfolding effect_step_ZoomIn by (simp add: overlap_def)

subsection \<open>The facade and the state of the view\<close>

lemma zoom_field_view_dispatch:
  "zoom_field (view_state (view_dispatch view effs)) =
     effects_loop (int (doc_length (view_state view))) (zoom_field (view_state view)) effs"
  by (simp add: view_dispatch_def applyTransaction_def zoomStateField_update_def rs_map_Keep)

lemma doc_length_view_dispatch:
  "doc_length (view_state (view_dispatch view effs)) = doc_length (view_state view)"
  by (simp add: view_dispatch_def applyTransaction_def)

lemma dispatched_view_dispatch:
  "dispatched (view_dispatch view effs) = dispatched view @ [effs]"
  by (simp add: view_dispatch_def)

lemma dispatched_applyIndentRemoval:
  "dispatched (applyIndentRemoval view n) = dispatched view"
  by (simp add: applyIndentRemoval_def split: option.splits)

lemma view_state_applyIndentRemoval:
  "view_state (applyIndentRemoval view n) = view_state view"
  by (simp add: applyIndentRemoval_def split: option.splits)

lemma view_state_removeIndentRemoval:
  "view_state (removeIndentRemoval view) = view_state view"
  by (simp add: removeIndentRemoval_def split: option.splits)

section \<open>The reducer\<close>

text \<open>
  C1. Whatever the segments before and whatever effects come earlier in the same
  update, after a zoom-in effect with the offsets \<open>f\<close> and \<open>t\<close> the set holds exactly
  these segments, \<open>L\<close> being the length of the new document: the segment from 0 to
  \<open>f - 1\<close> exactly when \<open>f > 0\<close>, and the segment from \<open>t + 1\<close> to \<open>L\<close> exactly when
  \<open>t < L\<close>. Nothing of the prior set is left, the number of segments is the number of
  these two conditions that hold, and with \<open>f = 0\<close> and \<open>t = L\<close> the set is empty.
\<close>

theorem zoom_in_replaces_segments:
  "set (zoomStateField_update host_map prior (tr\<lparr>effects := es @ [ZoomIn f t]\<rparr>)) =
     (if 0 < f then {\<lparr>rfrom = 0, rto = f - 1\<rparr>} else {}) \<union>
     (if t < int (newDoc_length tr)
      then {\<lparr>rfrom = t + 1, rto = int (newDoc_length tr)\<rparr>} else {})
   \<and> length (zoomStateField_update host_map prior (tr\<lparr>effects := es @ [ZoomIn f t]\<rparr>)) =
     (if 0 < f then 1 else 0) + (if t < int (newDoc_length tr) then 1 else 0)
   \<and> (f = 0 \<and> t = int (newDoc_length tr) \<longrightarrow>
        zoomStateField_update host_map prior (tr\<lparr>effects := es @ [ZoomIn f t]\<rparr>) = [])"
  unfolding update_last_effect effect_step_ZoomIn by auto

theorem zoom_in_replaces_segments_witness:
  "(0::int) = 0
   \<and> (100::int) = int (newDoc_length \<lparr>changes = [Keep 100], effects = [], newDoc_length = 100\<rparr>)
   \<and> zoomStateField_update rs_map [\<lparr>rfrom = 0, rto = 9\<rparr>, \<lparr>rfrom = 21, rto = 100\<rparr>]
     \<lparr>changes = [Keep 100], effects = [ZoomOut, ZoomIn 0 100], newDoc_length = 100\<rparr> = []
   \<and> set (zoomStateField_update rs_map [\<lparr>rfrom = 0, rto = 3\<rparr>]
       \<lparr>changes = [Keep 50], effects = [ZoomIn 10 20], newDoc_length = 50\<rparr>) =
     {\<lparr>rfrom = 0, rto = 9\<rparr>, \<lparr>rfrom = 21, rto = 50\<rparr>}"
  using zoom_in_replaces_segments[where f = 0 and t = 100 and es = "[ZoomOut]"
      and host_map = rs_map
      and tr = "\<lparr>changes = [Keep 100], effects = [], newDoc_length = 100\<rparr>"
      and prior = "[\<lparr>rfrom = 0, rto = 9\<rparr>, \<lparr>rfrom = 21, rto = 100\<rparr>]"]
    zoom_in_replaces_segments[where f = 10 and t = 20 and es = "[]"
      and host_map = rs_map
      and tr = "\<lparr>changes = [Keep 50], effects = [], newDoc_length = 50\<rparr>"
      and prior = "[\<lparr>rfrom = 0, rto = 3\<rparr>]"]
  by auto

text \<open>
  C2. Round trip through the visibility query. Let \<open>L\<close> be the length of the new
  document. For \<open>0 \<le> f \<le> t \<le> L\<close>, not both \<open>f = 0\<close> and \<open>t = L\<close>, the visible range
  computed from the state after a zoom-in effect with \<open>f\<close> and \<open>t\<close> is exactly the
  range from \<open>f\<close> to \<open>t\<close>. For a document of length 50 and the offsets 10 and 20 the
  hidden segments are the one from 0 to 9 and the one from 21 to 50, and the visible
  range is the one from 10 to 20.
\<close>

theorem zoom_in_visible_round_trip:
  "(0 \<le> f \<and> f \<le> t \<and> t \<le> int (newDoc_length tr)
      \<and> \<not> (f = 0 \<and> t = int (newDoc_length tr)) \<longrightarrow>
      calculateVisibleContentRange
        (applyTransaction host_map st (tr\<lparr>effects := es @ [ZoomIn f t]\<rparr>)) =
      Some \<lparr>rfrom = f, rto = t\<rparr>)
   \<and> calculateHiddenContentRanges
        (applyTransaction host_map st
           \<lparr>changes = c, effects = es @ [ZoomIn 10 20], newDoc_length = 50\<rparr>) =
      [\<lparr>rfrom = 0, rto = 9\<rparr>, \<lparr>rfrom = 21, rto = 50\<rparr>]
   \<and> calculateVisibleContentRange
        (applyTransaction host_map st
           \<lparr>changes = c, effects = es @ [ZoomIn 10 20], newDoc_length = 50\<rparr>) =
      Some \<lparr>rfrom = 10, rto = 20\<rparr>"
proof -
  let ?tr = "\<lparr>changes = c, effects = [], newDoc_length = 50\<rparr>"
  have tr: "\<lparr>changes = c, effects = es @ [ZoomIn 10 20], newDoc_length = 50\<rparr> =
      ?tr\<lparr>effects := es @ [ZoomIn 10 20]\<rparr>"
    by simp
  have "calculateHiddenContentRanges
      (applyTransaction host_map st (?tr\<lparr>effects := es @ [ZoomIn 10 20]\<rparr>)) =
      [\<lparr>rfrom = 0, rto = 9\<rparr>, \<lparr>rfrom = 21, rto = 50\<rparr>]"
    unfolding calculateHiddenContentRanges_def rangeSetToArray_id applyTransaction_def
      update_last_effect effect_step_ZoomIn by simp
  moreover have "calculateVisibleContentRange
      (applyTransaction host_map st (?tr\<lparr>effects := es @ [ZoomIn 10 20]\<rparr>)) =
      Some \<lparr>rfrom = 10, rto = 20\<rparr>"
    by (rule visible_after_zoom_in) simp_all
  ultimately show ?thesis
    using visible_after_zoom_in[of f t tr host_map st es] unfolding tr by blast
qed

theorem zoom_in_visible_round_trip_witness:
  "(0::int) \<le> 0 \<and> (0::int) \<le> 15 \<and> 15 \<le> int 30 \<and> \<not> ((0::int) = 0 \<and> 15 = int 30)
   \<and> calculateVisibleContentRange
        (applyTransaction rs_map \<lparr>doc_length = 30, zoom_field = []\<rparr>
           \<lparr>changes = [Keep 30], effects = [ZoomIn 0 15], newDoc_length = 30\<rparr>) =
      Some \<lparr>rfrom = 0, rto = 15\<rparr>"
  using zoom_in_visible_round_trip[where f = 0 and t = 15 and es = "[]"
      and host_map = rs_map
      and tr = "\<lparr>changes = [Keep 30], effects = [], newDoc_length = 30\<rparr>"
      and st = "\<lparr>doc_length = 30, zoom_field = []\<rparr>"]
  by simp

text \<open>
  C3. In every update the prior set is first passed to the host's mapping with the
  change batch of the transaction, once, and the effects are then applied in their
  order to the mapped set; with no effect the result is the mapped set itself. This
  holds for whatever the host's mapping does.
\<close>

theorem update_maps_then_applies_effects:
  "zoomStateField_update host_map prior tr =
     foldl (effect_step (int (newDoc_length tr))) (host_map (changes tr) prior) (effects tr)
   \<and> (effects tr = [] \<longrightarrow>
        zoomStateField_update host_map prior tr = host_map (changes tr) prior)"
  by (simp add: zoomStateField_update_def effects_loop_foldl)

theorem update_maps_then_applies_effects_witness:
  "effects (insert_transaction 50 3 5) = []
   \<and> zoomStateField_update rs_map [\<lparr>rfrom = 0, rto = 9\<rparr>, \<lparr>rfrom = 21, rto = 50\<rparr>]
        (insert_transaction 50 3 5) =
      [\<lparr>rfrom = 0, rto = 14\<rparr>, \<lparr>rfrom = 26, rto = 55\<rparr>]"
  using update_maps_then_applies_effects[where host_map = rs_map
      and tr = "insert_transaction 50 3 5"
      and prior = "[\<lparr>rfrom = 0, rto = 9\<rparr>, \<lparr>rfrom = 21, rto = 50\<rparr>]"]
  by (simp add: insert_transaction_def rs_map_def mapPos_insertion)

text \<open>
  C4, as amended. Starting from the empty initial set, after any sequence of updates
  the set holds at most two segments, and they are reported in ascending order of
  their \<open>from\<close> offsets. The segments that a zoom-in effect with \<open>f \<le> t\<close> installs do
  not overlap, whatever the set was before. That they stay apart under later edits is
  not part of the amended claim.
\<close>

theorem reducer_keeps_two_ascending_segments:
  "length (foldl (zoomStateField_update rs_map) zoomStateField_create trs) \<le> 2
   \<and> ascending_from
        (rangeSetToArray (foldl (zoomStateField_update rs_map) zoomStateField_create trs))
   \<and> (f \<le> t \<longrightarrow>
        no_overlap
          (zoomStateField_update host_map prior (tr\<lparr>effects := es @ [ZoomIn f t]\<rparr>)))"
proof -
  have "length zoomStateField_create \<le> 2 \<and> ascending_from zoomStateField_create"
    by (simp add: zoomStateField_create_def ascending_from_def)
  then have "length (foldl (zoomStateField_update rs_map) zoomStateField_create trs) \<le> 2 \<and>
     ascending_from (foldl (zoomStateField_update rs_map) zoomStateField_create trs)"
    by (rule foldl_update_invariant)
  then show ?thesis
    by (simp add: rangeSetToArray_id update_last_effect zoom_in_no_overlap
        del: effect_step.simps)
qed

theorem reducer_keeps_two_ascending_segments_witness:
  "length (foldl (zoomStateField_update rs_map) zoomStateField_create
      [\<lparr>changes = [Keep 50], effects = [ZoomIn 10 20], newDoc_length = 50\<rparr>,
       insert_transaction 50 3 5]) \<le> 2
   \<and> ascending_from (rangeSetToArray
       (foldl (zoomStateField_update rs_map) zoomStateField_create
          [\<lparr>changes = [Keep 50], effects = [ZoomIn 10 20], newDoc_length = 50\<rparr>,
           insert_transaction 50 3 5]))
   \<and> (10::int) \<le> 20
   \<and> no_overlap (zoomStateField_update rs_map zoomStateField_create
        \<lparr>changes = [Keep 50], effects = [ZoomIn 10 20], newDoc_length = 50\<rparr>)"
  using reducer_keeps_two_ascending_segments[where f = 10 and t = 20 and es = "[]"
      and host_map = rs_map
      and tr = "\<lparr>changes = [Keep 50], effects = [], newDoc_length = 50\<rparr>"
      and prior = zoomStateField_create
      and trs = "[\<lparr>changes = [Keep 50], effects = [ZoomIn 10 20], newDoc_length = 50\<rparr>,
       insert_transaction 50 3 5]"]
  by simp

text \<open>
  C4 as stated fails after edits, with offsets that are all within the contract. Both
  segments take in text inserted at their ends. Start from the empty initial set in a
  document of length 10 and zoom in to the offsets 4 and 6, which hides the segment
  from 0 to 3 and the segment from 7 to 10. Delete the offsets 3 to 6; the document has
  length 6 and the segments are the one from 0 to 3 and the one from 3 to 6. Insert two
  characters at offset 3: the first segment now ends at 5, the second still starts at
  3, and they share the offsets 3 and 4.
\<close>

theorem edits_can_make_segments_overlap:
  "foldl (zoomStateField_update rs_map) zoomStateField_create
     [\<lparr>changes = [Keep 10], effects = [ZoomIn 4 6], newDoc_length = 10\<rparr>,
      \<lparr>changes = [Keep 3, Replace 4 0, Keep 3], effects = [], newDoc_length = 6\<rparr>,
      insert_transaction 6 3 2] =
   [\<lparr>rfrom = 0, rto = 5\<rparr>, \<lparr>rfrom = 3, rto = 8\<rparr>]
   \<and> \<not> no_overlap
        (foldl (zoomStateField_update rs_map) zoomStateField_create
           [\<lparr>changes = [Keep 10], effects = [ZoomIn 4 6], newDoc_length = 10\<rparr>,
            \<lparr>changes = [Keep 3, Replace 4 0, Keep 3], effects = [], newDoc_length = 6\<rparr>,
            insert_transaction 6 3 2])"
  by (simp add: zoomStateField_update_def zoomStateField_create_def rs_map_def
      rs_update_filter_def zoomMarkHidden_range_def mapPos_def insert_transaction_def
      insertion_def overlap_def)

text \<open>
  C6. A zoom-out effect leaves the set empty whatever it was before. So zoom-out on
  the empty initial set leaves it empty; a zoom-in, any sequence of further updates
  and then a zoom-out end with the empty set; and after \<open>showAllContent\<close> the hidden
  ranges of the view are empty.
\<close>

theorem zoom_out_clears_segments:
  "effect_step L prior ZoomOut = []
   \<and> zoomStateField_update host_map prior (tr\<lparr>effects := es @ [ZoomOut]\<rparr>) = []
   \<and> zoomStateField_update host_map zoomStateField_create (tr\<lparr>effects := [ZoomOut]\<rparr>) = []
   \<and> zoomStateField_update host_map
        (foldl (zoomStateField_update host_map)
           (zoomStateField_update host_map prior (tr_in\<lparr>effects := [ZoomIn f t]\<rparr>)) edits)
        (tr_out\<lparr>effects := [ZoomOut]\<rparr>) = []
   \<and> calculateHiddenContentRanges (view_state (showAllContent view)) = []"
proof -
  have "calculateHiddenContentRanges (view_state (showAllContent view)) = []"
    by (simp add: showAllContent_def calculateHiddenContentRanges_def rangeSetToArray_id
        zoom_field_view_dispatch rs_clear_empty)
  then show ?thesis
    by (simp add: rs_clear_empty update_ZoomOut_last update_ZoomOut_only)
qed

theorem zoom_out_clears_segments_witness:
  "calculateHiddenContentRanges (view_state (showAllContent
      \<lparr>view_state = \<lparr>doc_length = 50,
         zoom_field = [\<lparr>rfrom = 0, rto = 9\<rparr>, \<lparr>rfrom = 21, rto = 50\<rparr>]\<rparr>,
       line_text_at = (\<lambda>pos. None),
       closest_editor_el = Some (IndentRemoval 2),
       dispatched = []\<rparr>)) = []
   \<and> zoomStateField_update rs_map
        (foldl (zoomStateField_update rs_map)
           (zoomStateField_update rs_map zoomStateField_create
              \<lparr>changes = [Keep 50], effects = [ZoomIn 10 20], newDoc_length = 50\<rparr>)
           [insert_transaction 50 3 5, insert_transaction 55 30 1])
        \<lparr>changes = [Keep 56], effects = [ZoomOut], newDoc_length = 56\<rparr> = []"
  using zoom_out_clears_segments[where f = 10 and t = 20 and host_map = rs_map
      and tr_in = "\<lparr>changes = [Keep 50], effects = [], newDoc_length = 50\<rparr>"
      and tr_out = "\<lparr>changes = [Keep 56], effects = [], newDoc_length = 56\<rparr>"
      and edits = "[insert_transaction 50 3 5, insert_transaction 55 30 1]"
      and prior = zoomStateField_create
      and view = "\<lparr>view_state = \<lparr>doc_length = 50,
         zoom_field = [\<lparr>rfrom = 0, rto = 9\<rparr>, \<lparr>rfrom = 21, rto = 50\<rparr>]\<rparr>,
       line_text_at = (\<lambda>pos. None),
       closest_editor_el = Some (IndentRemoval 2),
       dispatched = []\<rparr>"]
  by simp

text \<open>
  C7. A zoom-in effect with the offsets \<open>c\<close> and \<open>d\<close> gives the same set for any two
  prior sets, any earlier effects and any change batches, as long as the new documents
  have the same length. So a zoom-in with \<open>a\<close> and \<open>b\<close> followed by a zoom-in with \<open>c\<close>
  and \<open>d\<close> gives what a zoom-in with \<open>c\<close> and \<open>d\<close> gives on the empty initial set.
\<close>

theorem rezoom_overrides:
  "(newDoc_length tr1 = newDoc_length tr2 \<longrightarrow>
      zoomStateField_update host_map1 prior1 (tr1\<lparr>effects := es1 @ [ZoomIn c d]\<rparr>) =
      zoomStateField_update host_map2 prior2 (tr2\<lparr>effects := es2 @ [ZoomIn c d]\<rparr>))
   \<and> (newDoc_length tr1 = newDoc_length tr2 \<longrightarrow>
      zoomStateField_update host_map
        (zoomStateField_update host_map prior (tr0\<lparr>effects := [ZoomIn a b]\<rparr>))
        (tr1\<lparr>effects := [ZoomIn c d]\<rparr>) =
      zoomStateField_update host_map zoomStateField_create (tr2\<lparr>effects := [ZoomIn c d]\<rparr>))"
  by (auto intro: update_ZoomIn_last update_ZoomIn_only)

theorem rezoom_overrides_witness:
  "newDoc_length (insert_transaction 45 3 5) =
     newDoc_length \<lparr>changes = [Keep 50], effects = [], newDoc_length = 50\<rparr>
   \<and> zoomStateField_update rs_map [\<lparr>rfrom = 0, rto = 9\<rparr>, \<lparr>rfrom = 21, rto = 45\<rparr>]
        \<lparr>changes = insertion 45 3 5, effects = [ZoomIn 30 40], newDoc_length = 50\<rparr> =
      zoomStateField_update rs_map zoomStateField_create
        \<lparr>changes = [Keep 50], effects = [ZoomIn 30 40], newDoc_length = 50\<rparr>"
  using rezoom_overrides[where c = 30 and d = 40 and ?es1.0 = "[]" and ?es2.0 = "[]"
      and ?host_map1.0 = rs_map and ?host_map2.0 = rs_map
      and ?tr1.0 = "insert_transaction 45 3 5"
      and ?tr2.0 = "\<lparr>changes = [Keep 50], effects = [], newDoc_length = 50\<rparr>"
      and ?prior1.0 = "[\<lparr>rfrom = 0, rto = 9\<rparr>, \<lparr>rfrom = 21, rto = 45\<rparr>]"
      and ?prior2.0 = zoomStateField_create]
  by (simp add: insert_transaction_def)

section \<open>The visibility query and the facade\<close>

text \<open>
  C5. The visibility query returns \<open>null\<close> exactly when the number of hidden segments
  is zero or greater than two; in particular it returns \<open>null\<close>, and no range, for
  every such set. The query is a total function, so it returns for every state.
\<close>

theorem visible_range_none_iff:
  "calculateVisibleContentRange state = None \<longleftrightarrow>
     length (calculateHiddenContentRanges state) = 0
     \<or> 2 < length (calculateHiddenContentRanges state)"
  by (simp add: calculateVisibleContentRange_def split: list.splits)

theorem visible_range_none_iff_witness:
  "length (calculateHiddenContentRanges \<lparr>doc_length = 50, zoom_field =
      [\<lparr>rfrom = 0, rto = 9\<rparr>, \<lparr>rfrom = 21, rto = 30\<rparr>, \<lparr>rfrom = 41, rto = 50\<rparr>]\<rparr>) = 3
   \<and> calculateVisibleContentRange \<lparr>doc_length = 50, zoom_field =
      [\<lparr>rfrom = 0, rto = 9\<rparr>, \<lparr>rfrom = 21, rto = 30\<rparr>, \<lparr>rfrom = 41, rto = 50\<rparr>]\<rparr> = None
   \<and> calculateVisibleContentRange \<lparr>doc_length = 50, zoom_field = []\<rparr> = None"
  using visible_range_none_iff[of "\<lparr>doc_length = 50, zoom_field =
      [\<lparr>rfrom = 0, rto = 9\<rparr>, \<lparr>rfrom = 21, rto = 30\<rparr>, \<lparr>rfrom = 41, rto = 50\<rparr>]\<rparr>"]
    visible_range_none_iff[of "\<lparr>doc_length = 50, zoom_field = []\<rparr>"]
  by (simp add: calculateHiddenContentRanges_def rangeSetToArray_id)

text \<open>
  C8. Edit resilience. Let \<open>L\<close> be the length of the document after a zoom-in effect
  with \<open>0 \<le> f \<le> t \<le> L\<close>, whose visible range is the one from \<open>f\<close> to \<open>t\<close>. After an
  edit that inserts \<open>n\<close> characters at an offset \<open>p < f\<close>, the visible range is the one
  from \<open>f + n\<close> to \<open>t + n\<close>: both bounds have moved by \<open>n\<close>, and the width is the same.
\<close>

theorem insert_before_shifts_visible_range:
  assumes "0 \<le> f" "f \<le> t" "t \<le> int (newDoc_length tr)" "int p < f"
  shows "calculateVisibleContentRange
           (applyTransaction host_map st (tr\<lparr>effects := es @ [ZoomIn f t]\<rparr>)) =
         Some \<lparr>rfrom = f, rto = t\<rparr>
       \<and> calculateVisibleContentRange
           (applyTransaction rs_map
              (applyTransaction host_map st (tr\<lparr>effects := es @ [ZoomIn f t]\<rparr>))
              (insert_transaction (newDoc_length tr) p n)) =
         Some \<lparr>rfrom = f + int n, rto = t + int n\<rparr>"
proof -
  from assms have pL: "p \<le> newDoc_length tr" by linarith
  have first: "calculateVisibleContentRange
           (applyTransaction host_map st (tr\<lparr>effects := es @ [ZoomIn f t]\<rparr>)) =
         Some \<lparr>rfrom = f, rto = t\<rparr>"
    using assms by (intro visible_after_zoom_in) auto
  have second: "calculateVisibleContentRange
           (applyTransaction rs_map
              (applyTransaction host_map st (tr\<lparr>effects := es @ [ZoomIn f t]\<rparr>))
              (insert_transaction (newDoc_length tr) p n)) =
         Some \<lparr>rfrom = f + int n, rto = t + int n\<rparr>"
    using assms
    unfolding calculateVisibleContentRange_def calculateHiddenContentRanges_def
      rangeSetToArray_id applyTransaction_def update_last_effect effect_step_ZoomIn
    by (auto simp add: zoomStateField_update_def insert_transaction_def rs_map_def
        mapPos_insertion[OF pL])
  from first second show ?thesis by simp
qed

theorem insert_before_shifts_visible_range_witness:
  "(0::int) \<le> 10 \<and> (10::int) \<le> 20 \<and> 20 \<le> int 50 \<and> int 9 < 10
   \<and> calculateVisibleContentRange
        (applyTransaction rs_map
           (applyTransaction rs_map \<lparr>doc_length = 50, zoom_field = []\<rparr>
              \<lparr>changes = [Keep 50], effects = [ZoomIn 10 20], newDoc_length = 50\<rparr>)
           (insert_transaction 50 9 5)) =
      Some \<lparr>rfrom = 15, rto = 25\<rparr>"
  using insert_before_shifts_visible_range[where f = 10 and t = 20 and p = 9 and n = 5
      and es = "[]" and host_map = rs_map
      and tr = "\<lparr>changes = [Keep 50], effects = [], newDoc_length = 50\<rparr>"
      and st = "\<lparr>doc_length = 50, zoom_field = []\<rparr>"]
  by simp

text \<open>
  C9, as amended. \<open>keepOnlyZoomedContentVisible\<close> does not check its two offsets and
  does not clamp them. It raises exactly when the host's line lookup at \<open>from\<close> raises,
  which is before anything is dispatched. Otherwise it calls \<open>view.dispatch\<close> with the
  one zoom-in effect that carries the two offsets as they were passed, then, if asked
  to scroll, once more with the scroll request, and makes no other call; the state
  field afterwards is what the reducer makes of that zoom-in effect.
\<close>

theorem facade_forwards_offsets_unchecked:
  "map_option (\<lambda>v. (dispatched v, zoom_field (view_state v)))
     (keepOnlyZoomedContentVisible view f t options) =
   map_option
     (\<lambda>text.
        (dispatched view @ [[ZoomIn f t]] @
           (if (case options of None \<Rightarrow> True | Some b \<Rightarrow> b) then [[OtherEffect]] else []),
         effect_step (int (doc_length (view_state view)))
           (zoom_field (view_state view)) (ZoomIn f t)))
     (line_text_at view f)"
  by (cases "line_text_at view f")
    (simp_all add: keepOnlyZoomedContentVisible_def calculateIndentLevel_def Let_def
      zoom_field_view_dispatch doc_length_view_dispatch view_state_applyIndentRemoval
      dispatched_view_dispatch dispatched_applyIndentRemoval
      del: effect_step.simps(1))

theorem facade_forwards_offsets_unchecked_witness:
  "map_option (\<lambda>v. (dispatched v, zoom_field (view_state v)))
     (keepOnlyZoomedContentVisible
        \<lparr>view_state = \<lparr>doc_length = 50, zoom_field = []\<rparr>,
         line_text_at = (\<lambda>pos. if 0 \<le> pos \<and> pos \<le> 50 then Some ''  item'' else None),
         closest_editor_el = Some NoIndentRemoval,
         dispatched = []\<rparr> 10 20 None) =
   Some ([[ZoomIn 10 20], [OtherEffect]],
         [\<lparr>rfrom = 0, rto = 9\<rparr>, \<lparr>rfrom = 21, rto = 50\<rparr>])
   \<and> map_option (\<lambda>v. (dispatched v, zoom_field (view_state v)))
     (keepOnlyZoomedContentVisible
        \<lparr>view_state = \<lparr>doc_length = 50, zoom_field = []\<rparr>,
         line_text_at = (\<lambda>pos. if 0 \<le> pos \<and> pos \<le> 50 then Some ''  item'' else None),
         closest_editor_el = Some NoIndentRemoval,
         dispatched = []\<rparr> 10 99 (Some False)) =
   Some ([[ZoomIn 10 99]], [\<lparr>rfrom = 0, rto = 9\<rparr>])
   \<and> keepOnlyZoomedContentVisible
        \<lparr>view_state = \<lparr>doc_length = 50, zoom_field = []\<rparr>,
         line_text_at = (\<lambda>pos. if 0 \<le> pos \<and> pos \<le> 50 then Some ''  item'' else None),
         closest_editor_el = Some NoIndentRemoval,
         dispatched = []\<rparr> 60 70 None = None"
  using facade_forwards_offsets_unchecked[where f = 10 and t = 20 and options = None
      and view =
        "\<lparr>view_state = \<lparr>doc_length = 50, zoom_field = []\<rparr>,
         line_text_at = (\<lambda>pos. if 0 \<le> pos \<and> pos \<le> 50 then Some ''  item'' else None),
         closest_editor_el = Some NoIndentRemoval,
         dispatched = []\<rparr>"]
    facade_forwards_offsets_unchecked[where f = 10 and t = 99 and options = "Some False"
      and view =
        "\<lparr>view_state = \<lparr>doc_length = 50, zoom_field = []\<rparr>,
         line_text_at = (\<lambda>pos. if 0 \<le> pos \<and> pos \<le> 50 then Some ''  item'' else None),
         closest_editor_el = Some NoIndentRemoval,
         dispatched = []\<rparr>"]
    facade_forwards_offsets_unchecked[where f = 60 and t = 70 and options = None
      and view =
        "\<lparr>view_state = \<lparr>doc_length = 50, zoom_field = []\<rparr>,
         line_text_at = (\<lambda>pos. if 0 \<le> pos \<and> pos \<le> 50 then Some ''  item'' else None),
         closest_editor_el = Some NoIndentRemoval,
         dispatched = []\<rparr>"]
  by (simp add: effect_step_ZoomIn del: effect_step.simps(1))

text \<open>
  C9 as stated fails: in a document of length 50, whose lines the host finds at every
  offset from 0 to 50, the call with \<open>from = 20\<close> and \<open>to = 10\<close> is neither refused nor
  clamped. The zoom-in effect is dispatched with these very offsets, followed by the
  scroll request, and the hidden ranges afterwards are the one from 0 to 19 and the
  one from 11 to 50.
\<close>

theorem facade_accepts_reversed_offsets:
  "map_option (\<lambda>v. (dispatched v, calculateHiddenContentRanges (view_state v)))
     (keepOnlyZoomedContentVisible
        \<lparr>view_state = \<lparr>doc_length = 50, zoom_field = []\<rparr>,
         line_text_at = (\<lambda>pos. if 0 \<le> pos \<and> pos \<le> 50 then Some [] else None),
         closest_editor_el = Some NoIndentRemoval,
         dispatched = []\<rparr> 20 10 None) =
   Some ([[ZoomIn 20 10], [OtherEffect]],
         [\<lparr>rfrom = 0, rto = 19\<rparr>, \<lparr>rfrom = 11, rto = 50\<rparr>])"
  by (simp add: keepOnlyZoomedContentVisible_def calculateIndentLevel_def Let_def
      zoom_field_view_dispatch doc_length_view_dispatch view_state_applyIndentRemoval
      dispatched_view_dispatch dispatched_applyIndentRemoval
      calculateHiddenContentRanges_def rangeSetToArray_id effect_step_ZoomIn
      del: effect_step.simps(1))

text \<open>
  C10. Segments of width zero occur. Let \<open>L\<close> be the length of the new document. After
  a zoom-in effect with \<open>f = 1\<close> the hidden ranges contain the empty segment from 0 to
  0, and after one with \<open>t = L - 1\<close> they contain the empty segment from \<open>L\<close> to \<open>L\<close>.
  These segments are counted: the number of hidden ranges is the number of the
  conditions \<open>f > 0\<close> and \<open>t < L\<close> that hold. For \<open>0 \<le> f \<le> t \<le> L\<close> the visible range is
  in both cases still exactly the one from \<open>f\<close> to \<open>t\<close>.
\<close>

theorem zero_width_segments_reported:
  "(f = 1 \<longrightarrow>
      \<lparr>rfrom = 0, rto = 0\<rparr> \<in> set (calculateHiddenContentRanges
        (applyTransaction host_map st (tr\<lparr>effects := es @ [ZoomIn f t]\<rparr>))))
   \<and> (t = int (newDoc_length tr) - 1 \<longrightarrow>
      \<lparr>rfrom = int (newDoc_length tr), rto = int (newDoc_length tr)\<rparr>
        \<in> set (calculateHiddenContentRanges
        (applyTransaction host_map st (tr\<lparr>effects := es @ [ZoomIn f t]\<rparr>))))
   \<and> length (calculateHiddenContentRanges
        (applyTransaction host_map st (tr\<lparr>effects := es @ [ZoomIn f t]\<rparr>))) =
      (if 0 < f then 1 else 0) + (if t < int (newDoc_length tr) then 1 else 0)
   \<and> (0 \<le> f \<and> f \<le> t \<and> t \<le> int (newDoc_length tr)
        \<and> (f = 1 \<or> t = int (newDoc_length tr) - 1) \<longrightarrow>
      calculateVisibleContentRange
        (applyTransaction host_map st (tr\<lparr>effects := es @ [ZoomIn f t]\<rparr>)) =
      Some \<lparr>rfrom = f, rto = t\<rparr>)"
proof -
  have vis: "0 \<le> f \<and> f \<le> t \<and> t \<le> int (newDoc_length tr)
        \<and> (f = 1 \<or> t = int (newDoc_length tr) - 1) \<longrightarrow>
      calculateVisibleContentRange
        (applyTransaction host_map st (tr\<lparr>effects := es @ [ZoomIn f t]\<rparr>)) =
      Some \<lparr>rfrom = f, rto = t\<rparr>"
    by (auto intro!: visible_after_zoom_in)
  show ?thesis
    using vis
    unfolding calculateHiddenContentRanges_def rangeSetToArray_id applyTransaction_def
      update_last_effect effect_step_ZoomIn
    by auto
qed

theorem zero_width_segments_reported_witness:
  "(1::int) = 1 \<and> (49::int) = int 50 - 1 \<and> (0::int) \<le> 1 \<and> (1::int) \<le> 49 \<and> 49 \<le> int 50
   \<and> calculateHiddenContentRanges
     (applyTransaction rs_map \<lparr>doc_length = 50, zoom_field = []\<rparr>
        \<lparr>changes = [Keep 50], effects = [ZoomIn 1 49], newDoc_length = 50\<rparr>) =
   [\<lparr>rfrom = 0, rto = 0\<rparr>, \<lparr>rfrom = 50, rto = 50\<rparr>]
   \<and> calculateVisibleContentRange
     (applyTransaction rs_map \<lparr>doc_length = 50, zoom_field = []\<rparr>
        \<lparr>changes = [Keep 50], effects = [ZoomIn 1 49], newDoc_length = 50\<rparr>) =
   Some \<lparr>rfrom = 1, rto = 49\<rparr>"
  using zero_width_segments_reported[where f = 1 and t = 49 and es = "[]"
      and host_map = rs_map
      and tr = "\<lparr>changes = [Keep 50], effects = [], newDoc_length = 50\<rparr>"
      and st = "\<lparr>doc_length = 50, zoom_field = []\<rparr>"]
  by (simp add: calculateHiddenContentRanges_def rangeSetToArray_id applyTransaction_def
      zoomStateField_update_def rs_update_filter_def zoomMarkHidden_range_def)

end
